theory Spec2Isabelle
  imports Complex_Main
begin

section \<open>Python values used by the frame snatcher\<close>

text \<open>
  The program is \<^verbatim>\<open>video_frame_snatcher.pyw\<close>. Python integers are unbounded
  and are modelled by \<^typ>\<open>int\<close>. A Python \<^verbatim>\<open>float\<close> is a finite IEEE double and is
  modelled by the real number it denotes; comparisons of doubles are exact, so they are the
  comparisons of \<^typ>\<open>real\<close>. The two rounding operations the program uses, float
  division and float multiplication, are not computed in the logic: they are fields of the
  record \<open>platform\<close> below, so every theorem holds for whatever rounding the host
  performs. Infinities and NaN are outside the model (the metadata a video reports and the
  number a user types are finite).
\<close>

datatype error = IndexError | Cv2Error

text \<open>\<^verbatim>\<open>int(x)\<close> on a float truncates toward zero.\<close>

definition py_int :: "real \<Rightarrow> int" where
  "py_int x = (if 0 \<le> x then \<lfloor>x\<rfloor> else \<lceil>x\<rceil>)"

text \<open>The double written \<^verbatim>\<open>0.05\<close> in the source: \<open>0x3FA999999999999A\<close>.\<close>

definition double_0_05 :: real where
  "double_0_05 = 3602879701896397 / 2 ^ 56"

text \<open>
  \<^verbatim>\<open>xs[i]\<close>: a negative index counts from the end; out of range raises
  \<^verbatim>\<open>IndexError\<close>.
\<close>

definition py_getitem :: "'a list \<Rightarrow> int \<Rightarrow> error + 'a" where
  "py_getitem xs i =
     (if 0 \<le> i \<and> i < int (length xs) then Inr (xs ! nat i)
      else if i < 0 \<and> - int (length xs) \<le> i then Inr (xs ! nat (int (length xs) + i))
      else Inl IndexError)"

text \<open>
  What the host supplies: the rounding of \<^verbatim>\<open>a / b\<close> and \<^verbatim>\<open>a * b\<close> on
  floats (\<^verbatim>\<open>int / int\<close> is the correctly rounded quotient of the two integers, so it is
  \<open>fdiv\<close> of their real values), \<^verbatim>\<open>float(text)\<close> (\<open>None\<close> when it raises
  \<^verbatim>\<open>ValueError\<close>), \<^verbatim>\<open>os.path.join\<close>, and whether \<^verbatim>\<open>cv2.imwrite\<close> raises for a
  given output path. The value \<^verbatim>\<open>cv2.imwrite\<close> returns is ignored by the program, so it
  is not modelled: a written file is a call of \<^verbatim>\<open>cv2.imwrite\<close> that returned.
  Every division of the program has a divisor that was tested to be positive, so
  \<^verbatim>\<open>ZeroDivisionError\<close> is not among the errors.
\<close>

record platform =
  fdiv :: "real \<Rightarrow> real \<Rightarrow> real"
  fmul :: "real \<Rightarrow> real \<Rightarrow> real"
  float_of_text :: "string \<Rightarrow> real option"
  path_join :: "string \<Rightarrow> string \<Rightarrow> string"
  imwrite_raises :: "string \<Rightarrow> bool"


section \<open>ReviewDialog: paging through the image files\<close>

record review_dialog =
  image_files :: "string list"
  current_index :: int

text \<open>\<^verbatim>\<open>len(self.image_files)\<close>\<close>

definition len_files :: "review_dialog \<Rightarrow> int" where
  "len_files d = int (length (image_files d))"

text \<open>
  \<^verbatim>\<open>update_position_info\<close>: the label shows \<open>start\<close>-\<open>end\<close>, the bar is set
  to \<open>progress\<close>.
\<close>

record position_info =
  range_start :: int
  range_end :: int
  percent :: int

definition update_position_info :: "platform \<Rightarrow> review_dialog \<Rightarrow> position_info" where
  "update_position_info pf d =
     \<lparr> range_start = current_index d + 1,
       range_end = min (current_index d + 10) (len_files d),
       percent = py_int (fmul pf (fdiv pf (of_int (current_index d))
                                          (of_int (max 1 (len_files d)))) 100) \<rparr>"

text \<open>
  The loop of \<^verbatim>\<open>show_images\<close> over \<^verbatim>\<open>range(10)\<close>: it stops at the first
  \<open>idx \<ge> len\<close>, and reads \<^verbatim>\<open>self.image_files[idx]\<close> otherwise.
\<close>

fun collect_page :: "string list \<Rightarrow> int \<Rightarrow> nat list \<Rightarrow> error + string list" where
  "collect_page files c [] = Inr []"
| "collect_page files c (i # rest) =
     (if int (length files) \<le> c + int i then Inr []
      else (case py_getitem files (c + int i) of
              Inl e \<Rightarrow> Inl e
            | Inr f \<Rightarrow> (case collect_page files c rest of
                         Inl e \<Rightarrow> Inl e
                       | Inr fs \<Rightarrow> Inr (f # fs))))"

definition show_images :: "platform \<Rightarrow> review_dialog \<Rightarrow> error + (string list \<times> position_info)" where
  "show_images pf d =
     (case collect_page (image_files d) (current_index d) [0..<10] of
        Inl e \<Rightarrow> Inl e
      | Inr page \<Rightarrow> Inr (page, update_position_info pf d))"

text \<open>
  \<^verbatim>\<open>ReviewDialog.__init__\<close> stores the list, sets the index to 0 and shows the first page.
\<close>

definition init_dialog :: "string list \<Rightarrow> review_dialog" where
  "init_dialog files = \<lparr> image_files = files, current_index = 0 \<rparr>"

text \<open>
  Every button handler returns the dialog after the handler and what \<^verbatim>\<open>show_images\<close>
  did: \<open>None\<close> when it was not called, \<open>Some (Inl e)\<close> when it raised (the index
  has been assigned by then), \<open>Some (Inr _)\<close> when it drew a page.
\<close>

type_synonym shown = "(error + (string list \<times> position_info)) option"

definition refresh :: "platform \<Rightarrow> review_dialog \<Rightarrow> review_dialog \<times> shown" where
  "refresh pf d = (d, Some (show_images pf d))"

definition show_next :: "platform \<Rightarrow> review_dialog \<Rightarrow> review_dialog \<times> shown" where
  "show_next pf d =
     (if current_index d + 10 < len_files d
      then refresh pf (d\<lparr>current_index := current_index d + 10\<rparr>)
      else (d, None))"

definition show_previous :: "platform \<Rightarrow> review_dialog \<Rightarrow> review_dialog \<times> shown" where
  "show_previous pf d =
     (if 0 \<le> current_index d - 10
      then refresh pf (d\<lparr>current_index := current_index d - 10\<rparr>)
      else (d, None))"

text \<open>\<^verbatim>\<open>max(1, int(len(self.image_files) * 0.05))\<close>\<close>

definition jump_amount :: "platform \<Rightarrow> review_dialog \<Rightarrow> int" where
  "jump_amount pf d = max 1 (py_int (fmul pf (of_int (len_files d)) double_0_05))"

definition jump_forward :: "platform \<Rightarrow> review_dialog \<Rightarrow> review_dialog \<times> shown" where
  "jump_forward pf d =
     refresh pf (d\<lparr>current_index :=
        min (current_index d + jump_amount pf d) (len_files d - 10)\<rparr>)"

definition jump_back :: "platform \<Rightarrow> review_dialog \<Rightarrow> review_dialog \<times> shown" where
  "jump_back pf d =
     refresh pf (d\<lparr>current_index := max (current_index d - jump_amount pf d) 0\<rparr>)"

definition jump_to_start :: "platform \<Rightarrow> review_dialog \<Rightarrow> review_dialog \<times> shown" where
  "jump_to_start pf d = refresh pf (d\<lparr>current_index := 0\<rparr>)"

definition jump_to_end :: "platform \<Rightarrow> review_dialog \<Rightarrow> review_dialog \<times> shown" where
  "jump_to_end pf d = refresh pf (d\<lparr>current_index := max 0 (len_files d - 10)\<rparr>)"

text \<open>
  The six buttons of the dialog. An exception raised inside a handler is reported by the
  event loop and the dialog stays open, so a sequence of clicks continues from the dialog
  the handler left behind.
\<close>

datatype button = Next | Previous | JumpForward | JumpBack | JumpToStart | JumpToEnd

fun click :: "platform \<Rightarrow> button \<Rightarrow> review_dialog \<Rightarrow> review_dialog \<times> shown" where
  "click pf Next d = show_next pf d"
| "click pf Previous d = show_previous pf d"
| "click pf JumpForward d = jump_forward pf d"
| "click pf JumpBack d = jump_back pf d"
| "click pf JumpToStart d = jump_to_start pf d"
| "click pf JumpToEnd d = jump_to_end pf d"

fun clicks :: "platform \<Rightarrow> button list \<Rightarrow> review_dialog \<Rightarrow> review_dialog" where
  "clicks pf [] d = d"
| "clicks pf (b # bs) d = clicks pf bs (fst (click pf b d))"

text \<open>The invariant the cursor is meant to keep, for a page of 10.\<close>

definition cursor_ok :: "review_dialog \<Rightarrow> bool" where
  "cursor_ok d = (0 \<le> current_index d \<and> current_index d \<le> max 0 (len_files d - 10))"

text \<open>The bound the handlers do keep: the cursor is the index of an image file.\<close>

definition cursor_in_list :: "review_dialog \<Rightarrow> bool" where
  "cursor_in_list d = (0 \<le> current_index d \<and> current_index d \<le> max 0 (len_files d - 1))"


section \<open>FrameExtractor: sampling frames of a video\<close>






text \<open>\<^verbatim>\<open>f'snapshot_{count:04}.jpg'\<close>: the count in decimal, padded with zeros to width 4.\<close>

definition digit_char :: "nat \<Rightarrow> char" where
  "digit_char n = ''0123456789'' ! n"

fun dec_digits :: "nat \<Rightarrow> string" where
  "dec_digits n =
     (if n < 10 then [digit_char n] else dec_digits (n div 10) @ [digit_char (n mod 10)])"

declare dec_digits.simps [simp del]

definition format_04 :: "nat \<Rightarrow> string" where
  "format_04 n = replicate (4 - length (dec_digits n)) (CHR ''0'') @ dec_digits n"

definition snapshot_name :: "nat \<Rightarrow> string" where
  "snapshot_name count = ''snapshot_'' @ format_04 count @ ''.jpg''"












section \<open>VideoFrameSnatcher.process_video\<close>






section \<open>Assumptions on the host, and an example host\<close>


text \<open>
  A host for concrete runs: arithmetic without rounding (the concrete runs below only
  divide and multiply where the double result is exact, or where only its integer part
  matters and is the same), a text parser that accepts integer literals only, the POSIX
  separator, and writes that never raise.
\<close>

definition digit_of :: "char \<Rightarrow> nat option" where
  "digit_of c = map_of (zip ''0123456789'' [0, 1, 2, 3, 4, 5, 6, 7, 8, 9]) c"

fun digits_value :: "nat \<Rightarrow> string \<Rightarrow> nat option" where
  "digits_value acc [] = Some acc"
| "digits_value acc (c # cs) =
     (case digit_of c of None \<Rightarrow> None | Some v \<Rightarrow> digits_value (10 * acc + v) cs)"

definition integer_literal :: "string \<Rightarrow> real option" where
  "integer_literal s =
     (case s of
        [] \<Rightarrow> None
      | c # cs \<Rightarrow>
          if c = CHR ''-''
          then (if cs = [] then None else map_option (\<lambda>n. - real n) (digits_value 0 cs))
          else map_option real (digits_value 0 s))"

definition exact_host :: platform where
  "exact_host =
     \<lparr> fdiv = (\<lambda>a b. a / b), fmul = (\<lambda>a b. a * b),
       float_of_text = integer_literal,
       path_join = (\<lambda>dir name. dir @ ''/'' @ name),
       imwrite_raises = (\<lambda>_. False) \<rparr>"


section \<open>Facts about the Python values\<close>



lemma py_int_of_int: "py_int (of_int k) = k"
  by (simp add: py_int_def)






section \<open>Facts about the dialog\<close>

lemma jump_amount_pos: "1 \<le> jump_amount pf d"
  by (simp add: jump_amount_def)

lemmas handler_defs = show_next_def show_previous_def jump_forward_def jump_back_def
  jump_to_start_def jump_to_end_def refresh_def

lemma image_files_click: "image_files (fst (click pf b d)) = image_files d"
  by (cases b) (simp_all add: handler_defs)

lemma image_files_clicks: "image_files (clicks pf bs d) = image_files d"
  by (induction bs arbitrary: d) (simp_all add: image_files_click)

lemma len_files_click: "len_files (fst (click pf b d)) = len_files d"
  by (simp add: len_files_def image_files_click)

lemma jump_forward_short:
  "length files < 10 \<Longrightarrow>
     current_index (fst (jump_forward pf (init_dialog files))) = int (length files) - 10"
  using jump_amount_pos [of pf "init_dialog files"]
  by (simp add: jump_forward_def refresh_def init_dialog_def len_files_def)

lemma jump_to_end_then_forward_full:
  "10 \<le> len_files d \<Longrightarrow>
     current_index (fst (jump_forward pf (fst (jump_to_end pf d))))
       = current_index (fst (jump_to_end pf d))"
  using jump_amount_pos [of pf "d\<lparr>current_index := len_files d - 10\<rparr>"]
  by (simp add: jump_forward_def jump_to_end_def refresh_def len_files_def)

lemma cursor_in_list_click:
  assumes "cursor_in_list d" and "b \<noteq> JumpForward \<or> 10 \<le> len_files d"
  shows "cursor_in_list (fst (click pf b d))"
proof -
  have j: "1 \<le> jump_amount pf d" by (rule jump_amount_pos)
  show ?thesis
    using assms j
    by (cases b) (auto simp add: cursor_in_list_def handler_defs len_files_def)
qed

lemma cursor_in_list_clicks:
  "cursor_in_list d \<Longrightarrow> JumpForward \<notin> set bs \<or> 10 \<le> len_files d
     \<Longrightarrow> cursor_in_list (clicks pf bs d)"
proof (induction bs arbitrary: d)
  case Nil
  then show ?case by simp
next
  case (Cons b bs)
  have "cursor_in_list (fst (click pf b d))"
    using Cons.prems by (intro cursor_in_list_click) auto
  moreover have "JumpForward \<notin> set bs \<or> 10 \<le> len_files (fst (click pf b d))"
    using Cons.prems(2) by (auto simp add: len_files_click)
  ultimately show ?case using Cons.IH by simp
qed


section \<open>Facts about the sampler\<close>




subsection \<open>The loop\<close>












subsection \<open>File names\<close>

lemma digit_of_digit_char: "n < 10 \<Longrightarrow> digit_of (digit_char n) = Some n"
proof -
  assume "n < 10"
  then have "n \<in> {0, 1, 2, 3, 4, 5, 6, 7, 8, 9}" by auto
  then show ?thesis
    by (auto simp add: digit_of_def digit_char_def)
qed

lemma digits_value_append:
  "digits_value acc (xs @ ys) =
     (case digits_value acc xs of None \<Rightarrow> None | Some a \<Rightarrow> digits_value a ys)"
  by (induction xs arbitrary: acc) (simp_all split: option.splits)

lemma digits_value_dec: "digits_value 0 (dec_digits n) = Some n"
proof (induction n rule: dec_digits.induct)
  case (1 n)
  show ?case
  proof (cases "n < 10")
    case True
    then show ?thesis
      by (simp add: dec_digits.simps [of n] digit_of_digit_char)
  next
    case False
    have "n mod 10 < 10" by simp
    then have d: "digit_of (digit_char (n mod 10)) = Some (n mod 10)"
      by (rule digit_of_digit_char)
    show ?thesis
      using False "1.IH" d
      by (simp add: dec_digits.simps [of n] digits_value_append)
  qed
qed

lemma digits_value_zeros: "digits_value 0 (replicate m (CHR ''0'')) = Some 0"
  by (induction m) (simp_all add: digit_of_def)

lemma digits_value_format_04: "digits_value 0 (format_04 n) = Some n"
  by (simp add: format_04_def digits_value_append digits_value_zeros digits_value_dec)


lemma snapshot_name_inj: "snapshot_name m = snapshot_name n \<Longrightarrow> m = n"
proof -
  assume "snapshot_name m = snapshot_name n"
  then have "format_04 m = format_04 n" by (simp add: snapshot_name_def)
  then have "digits_value 0 (format_04 m) = digits_value 0 (format_04 n)" by simp
  then show ?thesis by (simp add: digits_value_format_04)
qed

subsection \<open>The run\<close>






subsection \<open>Progress is monotone\<close>











subsection \<open>When the run completes\<close>





section \<open>Claims about the dialog\<close>

text \<open>
  Claim C1 (cursor invariant), as amended. From the initial cursor 0, after every sequence
  of button clicks in which Jump Forward occurs only when the collection has at least 10
  files, the cursor satisfies \<open>0 \<le> cursor \<le> max(0, L - 1)\<close>. The bound
  \<open>max(0, L - 10)\<close> of the claim is not kept: \<^verbatim>\<open>show_next\<close> moves whenever
  \<open>cursor + 10 < L\<close>, which lands on a trailing page of fewer than 10 files.
\<close>

theorem cursor_bounds:
  assumes "10 \<le> length files \<or> JumpForward \<notin> set bs"
  shows "0 \<le> current_index (clicks pf bs (init_dialog files)) \<and>
         current_index (clicks pf bs (init_dialog files)) \<le> max 0 (int (length files) - 1)"
proof -
  have "cursor_in_list (init_dialog files)"
    by (simp add: cursor_in_list_def init_dialog_def len_files_def)
  moreover have "JumpForward \<notin> set bs \<or> 10 \<le> len_files (init_dialog files)"
    using assms by (auto simp add: init_dialog_def len_files_def)
  ultimately have "cursor_in_list (clicks pf bs (init_dialog files))"
    by (rule cursor_in_list_clicks)
  then show ?thesis
    by (simp add: cursor_in_list_def len_files_def image_files_clicks init_dialog_def)
qed

text \<open>A sequence of clicks on 23 files that the theorem covers.\<close>

theorem cursor_bounds_witness:
  "10 \<le> length (replicate 23 ''f'') \<and>
   0 \<le> current_index (clicks exact_host [JumpForward, Next, Next] (init_dialog (replicate 23 ''f''))) \<and>
   current_index (clicks exact_host [JumpForward, Next, Next] (init_dialog (replicate 23 ''f''))) \<le> 22"
  using cursor_bounds [of "replicate 23 ''f''" "[JumpForward, Next, Next]" exact_host]
  by simp

text \<open>
  The invariant of C1 as stated fails on 23 files: two clicks on Next put the cursor at
  20, beyond \<open>max(0, 23 - 10) = 13\<close>.
\<close>

theorem cursor_invariant_counterexample:
  "current_index (clicks exact_host [Next, Next] (init_dialog (replicate 23 ''f''))) = 20
   \<and> \<not> cursor_ok (clicks exact_host [Next, Next] (init_dialog (replicate 23 ''f'')))"
  by code_simp

text \<open>
  Claim C2 (Jump to End, then Jump Forward, leaves the cursor where Jump to End put it).
  On a collection of 3 files the code does otherwise: \<^verbatim>\<open>jump_to_end\<close> sets the
  cursor to \<open>max(0, 3 - 10) = 0\<close> and shows the 3 files; \<^verbatim>\<open>jump_forward\<close>
  then assigns \<open>min(0 + jump_amount, 3 - 10) = - 7\<close>, whatever the jump amount, and
  \<^verbatim>\<open>show_images\<close> raises \<^verbatim>\<open>IndexError\<close> at \<^verbatim>\<open>image_files[-7]\<close>.
  \<^verbatim>\<open>jump_forward\<close> lacks the \<^verbatim>\<open>max(0, ...)\<close> that \<^verbatim>\<open>jump_to_end\<close> applies.
\<close>

theorem jump_to_end_then_forward_short:
  "jump_to_end pf (init_dialog [''a'', ''b'', ''c''])
     = (\<lparr> image_files = [''a'', ''b'', ''c''], current_index = 0 \<rparr>,
        Some (Inr ([''a'', ''b'', ''c''], update_position_info pf (init_dialog [''a'', ''b'', ''c'']))))
   \<and> jump_forward pf (fst (jump_to_end pf (init_dialog [''a'', ''b'', ''c''])))
     = (\<lparr> image_files = [''a'', ''b'', ''c''], current_index = - 7 \<rparr>, Some (Inl IndexError))"
  using jump_amount_pos [of pf "\<lparr> image_files = [''a'', ''b'', ''c''], current_index = 0 \<rparr>"]
  by (simp add: jump_forward_def jump_to_end_def refresh_def init_dialog_def len_files_def
       show_images_def py_getitem_def upt_rec)

text \<open>
  Claim C8 (Next and Previous). For every dialog, \<^verbatim>\<open>show_next\<close> leaves the cursor
  when \<open>cursor + 10 \<ge> L\<close> and adds 10 otherwise; \<^verbatim>\<open>show_previous\<close> leaves it
  when \<open>cursor - 10 < 0\<close> and subtracts 10 otherwise. In the two cases where nothing
  moves the handler returns the dialog as it was, calls nothing and raises nothing.
\<close>

theorem paging:
  "current_index (fst (show_next pf d)) =
     (if len_files d \<le> current_index d + 10 then current_index d else current_index d + 10)
   \<and> current_index (fst (show_previous pf d)) =
     (if current_index d - 10 < 0 then current_index d else current_index d - 10)
   \<and> (len_files d \<le> current_index d + 10 \<longrightarrow> show_next pf d = (d, None))
   \<and> (current_index d - 10 < 0 \<longrightarrow> show_previous pf d = (d, None))"
  by (simp add: show_next_def show_previous_def refresh_def)

text \<open>23 files: Next at cursor 21 and Previous at cursor 1 do nothing, Next at 1 moves.\<close>

theorem paging_witness:
  "show_next exact_host \<lparr> image_files = replicate 23 ''f'', current_index = 21 \<rparr>
     = (\<lparr> image_files = replicate 23 ''f'', current_index = 21 \<rparr>, None)
   \<and> show_previous exact_host \<lparr> image_files = replicate 23 ''f'', current_index = 1 \<rparr>
     = (\<lparr> image_files = replicate 23 ''f'', current_index = 1 \<rparr>, None)
   \<and> current_index (fst (show_next exact_host \<lparr> image_files = replicate 23 ''f'', current_index = 1 \<rparr>)) = 11"
  using paging [of exact_host "\<lparr> image_files = replicate 23 ''f'', current_index = 21 \<rparr>"]
        paging [of exact_host "\<lparr> image_files = replicate 23 ''f'', current_index = 1 \<rparr>"]
  by (simp add: len_files_def)



text \<open>
  Claim C10 (the collection is not changed). Every button handler, and every sequence of
  clicks, leaves \<^verbatim>\<open>image_files\<close> as it was: the same files in the same order.
\<close>

theorem collection_unchanged:
  "image_files (fst (click pf b d)) = image_files d
   \<and> image_files (clicks pf bs d) = image_files d"
  by (simp add: image_files_click image_files_clicks)


section \<open>Claims about the sampler\<close>














end
